theory Spec2Isabelle
  imports Complex_Main
begin

section \<open>Numbers, strings and dates of the JavaScript runtime\<close>

text \<open>
  The analytics service and the report scheduler are JavaScript. Integer columns
  (\<open>DataTypes.INTEGER\<close>) are modelled as \<open>int\<close>, float columns and every quotient the
  code forms as \<open>real\<close>. In the aggregation the Number arithmetic of the runtime is
  taken to be exact; the forecasters, whose results are rounded to integers, compute
  with the doubles of the runtime (\<open>to_double\<close> below). An instant (a \<open>Date\<close>) is its
  number of milliseconds since the epoch, a \<open>DATEONLY\<close> column is the number of its
  calendar day since the epoch.
\<close>

type_synonym instant = int
type_synonym day = int

definition msPerDay :: int where
  "msPerDay = 86400000"

text \<open>\<open>new Date(s)\<close> for a date-only string \<open>s\<close>: midnight UTC of that day.\<close>

definition new_Date :: "day \<Rightarrow> instant" where
  "new_Date d = d * msPerDay"

text \<open>
  The time zone of the process: \<open>utc_offset z t\<close> is the offset from UTC, in
  milliseconds, in force at the instant \<open>t\<close>; \<open>local_offset z l\<close> is the offset in force
  when the local clock shows \<open>l\<close> (a local date and time counted in milliseconds like an
  instant). They are the two readings of the local time zone adjustment of the
  language: \<open>LocalTime(t) = t + utc_offset z t\<close> and \<open>UTC(l) = l - local_offset z l\<close>.
\<close>

record zone =
  utc_offset :: "instant \<Rightarrow> int"
  local_offset :: "instant \<Rightarrow> int"

text \<open>
  \<open>nextDate.setDate(nextDate.getDate() + i)\<close>: the local calendar day moves by \<open>i\<close> days,
  the local time of day stays, and the result is taken back to UTC.
\<close>

definition setDate_plus :: "zone \<Rightarrow> instant \<Rightarrow> int \<Rightarrow> instant" where
  "setDate_plus z t i =
     (let local = t + utc_offset z t;
          moved = local + i * msPerDay
      in moved - local_offset z moved)"

text \<open>\<open>d.toISOString().split('T')[0]\<close>: the UTC calendar day of an instant.\<close>

definition toISODate :: "instant \<Rightarrow> day" where
  "toISODate t = t div msPerDay"

text \<open>\<open>Math.round\<close>: the integer nearest to its argument, a tie going up.\<close>

definition Math_round :: "real \<Rightarrow> int" where
  "Math_round x = \<lfloor>x + 1 / 2\<rfloor>"

text \<open>
  A double: the real number \<open>x\<close> rounded to 53 significant bits, a tie going to the even
  neighbour. \<open>exponent x\<close> is the \<open>e\<close> with \<open>2 ^ e \<le> |x| < 2 ^ (e + 1)\<close>, looked for
  within the exponents a normal double has (from -1022 to 1023); overflow and
  subnormal numbers are left out, the numbers of the forecasts being far from both.
\<close>

fun exponent_up :: "nat \<Rightarrow> real \<Rightarrow> int" where
  "exponent_up 0 x = 0"
| "exponent_up (Suc fuel) x = (if x < 2 then 0 else exponent_up fuel (x / 2) + 1)"

fun exponent_down :: "nat \<Rightarrow> real \<Rightarrow> int" where
  "exponent_down 0 x = 0"
| "exponent_down (Suc fuel) x = (if 1 \<le> x then 0 else exponent_down fuel (x * 2) - 1)"

definition exponent :: "real \<Rightarrow> int" where
  "exponent x = (if 1 \<le> \<bar>x\<bar> then exponent_up 1023 \<bar>x\<bar> else exponent_down 1022 \<bar>x\<bar>)"

definition pow2 :: "int \<Rightarrow> real" where
  "pow2 e = (if 0 \<le> e then 2 ^ nat e else 1 / 2 ^ nat (- e))"

definition round_half_even :: "real \<Rightarrow> int" where
  "round_half_even y =
     (let f = \<lfloor>y\<rfloor>; d = y - real_of_int f
      in if d < 1 / 2 then f
         else if 1 / 2 < d then f + 1
         else if even f then f else f + 1)"

definition to_double :: "real \<Rightarrow> real" where
  "to_double x =
     (if x = 0 then 0
      else (let ulp = pow2 (exponent x - 52)
            in real_of_int (round_half_even (x / ulp)) * ulp))"

text \<open>The operators \<open>+\<close>, \<open>-\<close>, \<open>*\<close> and \<open>/\<close> on doubles: the exact result, rounded.\<close>

definition js_add :: "real \<Rightarrow> real \<Rightarrow> real" where
  "js_add x y = to_double (x + y)"

definition js_sub :: "real \<Rightarrow> real \<Rightarrow> real" where
  "js_sub x y = to_double (x - y)"

definition js_mul :: "real \<Rightarrow> real \<Rightarrow> real" where
  "js_mul x y = to_double (x * y)"

definition js_div :: "real \<Rightarrow> real \<Rightarrow> real" where
  "js_div x y = to_double (x / y)"

text \<open>An integer inside a template literal: its decimal digits, with a sign when negative.\<close>

definition digit_char :: "nat \<Rightarrow> char" where
  "digit_char d = ''0123456789'' ! d"

fun string_of_nat :: "nat \<Rightarrow> string" where
  "string_of_nat n =
     (if n < 10 then [digit_char n]
      else string_of_nat (n div 10) @ [digit_char (n mod 10)])"

definition string_of_int :: "int \<Rightarrow> string" where
  "string_of_int n =
     (if n < 0 then CHR ''-'' # string_of_nat (nat (- n)) else string_of_nat (nat n))"

text \<open>The arrow of the anomaly messages (U+2192), as its three UTF-8 bytes.\<close>

definition arrow :: string where
  "arrow = [CHR 0xE2, CHR 0x86, CHR 0x92]"

definition push :: "'a list \<Rightarrow> 'a \<Rightarrow> 'a list" where
  "push xs x = xs @ [x]"

section \<open>Snapshots\<close>

record dated =
  date :: day

text \<open>A row of \<open>task_metrics\<close> (model \<open>TaskMetrics\<close>).\<close>

record task_metrics = dated +
  departmentId :: string
  totalTasks :: int
  completedTasks :: int
  pendingTasks :: int
  overdueTasks :: int
  averageCompletionTime :: real

text \<open>A row of \<open>user_performance\<close> (model \<open>UserPerformance\<close>).\<close>

record user_performance = dated +
  userId :: string
  tasksCompleted :: int
  tasksOverdue :: int
  averageResponseTime :: real
  productivityScore :: real

section \<open>Anomaly and trend detection\<close>

record anomaly = dated +
  type :: string
  message :: string

text \<open>
  The detectors and forecasters first fetch the series of the scope
  (\<open>getDepartmentMetrics\<close>, \<open>getUserPerformanceMetrics\<close>: rows ordered by date). The
  fetched value is the argument here; \<open>None\<close> is a null result.
\<close>

definition detectTaskAnomalies_body ::
  "task_metrics \<Rightarrow> task_metrics \<Rightarrow> anomaly list \<Rightarrow> anomaly list" where
  "detectTaskAnomalies_body prev cur anomalies =
     (let anomalies1 =
            (if 0 < completedTasks prev \<and>
                \<bar>real_of_int (completedTasks cur - completedTasks prev)\<bar>
                  / real_of_int (completedTasks prev) > 0.5
             then push anomalies
                    \<lparr>date = date cur, type = ''completedTasks'',
                     message = ''Significant change in completed tasks: ''
                       @ string_of_int (completedTasks prev) @ '' '' @ arrow @ '' ''
                       @ string_of_int (completedTasks cur)\<rparr>
             else anomalies)
      in if 0 < overdueTasks prev \<and>
            \<bar>real_of_int (overdueTasks cur - overdueTasks prev)\<bar>
              / real_of_int (overdueTasks prev) > 0.5
         then push anomalies1
                \<lparr>date = date cur, type = ''overdueTasks'',
                 message = ''Significant change in overdue tasks: ''
                   @ string_of_int (overdueTasks prev) @ '' '' @ arrow @ '' ''
                   @ string_of_int (overdueTasks cur)\<rparr>
         else anomalies1)"

function detectTaskAnomalies_loop ::
  "task_metrics list \<Rightarrow> nat \<Rightarrow> anomaly list \<Rightarrow> anomaly list" where
  "detectTaskAnomalies_loop metrics i anomalies =
     (if i < length metrics
      then detectTaskAnomalies_loop metrics (i + 1)
             (detectTaskAnomalies_body (metrics ! (i - 1)) (metrics ! i) anomalies)
      else anomalies)"
  by pat_completeness auto
termination
  by (relation "measure (\<lambda>(metrics, i, anomalies). length metrics - i)") auto

declare detectTaskAnomalies_loop.simps [simp del]

definition detectTaskAnomalies :: "task_metrics list option \<Rightarrow> anomaly list" where
  "detectTaskAnomalies fetched =
     (case fetched of
        None \<Rightarrow> []
      | Some metrics \<Rightarrow>
          if length metrics < 2 then [] else detectTaskAnomalies_loop metrics 1 [])"

definition detectUserActivityAnomalies_body ::
  "user_performance \<Rightarrow> user_performance \<Rightarrow> anomaly list \<Rightarrow> anomaly list" where
  "detectUserActivityAnomalies_body prev cur anomalies =
     (let anomalies1 =
            (if 0 < tasksCompleted prev \<and>
                \<bar>real_of_int (tasksCompleted cur - tasksCompleted prev)\<bar>
                  / real_of_int (tasksCompleted prev) > 0.5
             then push anomalies
                    \<lparr>date = date cur, type = ''tasksCompleted'',
                     message = ''Significant change in tasks completed: ''
                       @ string_of_int (tasksCompleted prev) @ '' '' @ arrow @ '' ''
                       @ string_of_int (tasksCompleted cur)\<rparr>
             else anomalies)
      in if 0 < tasksOverdue prev \<and>
            \<bar>real_of_int (tasksOverdue cur - tasksOverdue prev)\<bar>
              / real_of_int (tasksOverdue prev) > 0.5
         then push anomalies1
                \<lparr>date = date cur, type = ''tasksOverdue'',
                 message = ''Significant change in overdue tasks: ''
                   @ string_of_int (tasksOverdue prev) @ '' '' @ arrow @ '' ''
                   @ string_of_int (tasksOverdue cur)\<rparr>
         else anomalies1)"

function detectUserActivityAnomalies_loop ::
  "user_performance list \<Rightarrow> nat \<Rightarrow> anomaly list \<Rightarrow> anomaly list" where
  "detectUserActivityAnomalies_loop performance i anomalies =
     (if i < length performance
      then detectUserActivityAnomalies_loop performance (i + 1)
             (detectUserActivityAnomalies_body (performance ! (i - 1)) (performance ! i)
                anomalies)
      else anomalies)"
  by pat_completeness auto
termination
  by (relation "measure (\<lambda>(performance, i, anomalies). length performance - i)") auto

declare detectUserActivityAnomalies_loop.simps [simp del]

definition detectUserActivityAnomalies :: "user_performance list option \<Rightarrow> anomaly list" where
  "detectUserActivityAnomalies fetched =
     (case fetched of
        None \<Rightarrow> []
      | Some performance \<Rightarrow>
          if length performance < 2 then []
          else detectUserActivityAnomalies_loop performance 1 [])"

record trend_report =
  metric :: string
  trend :: string
  from_value :: int
  to_value :: int

definition detectDepartmentTrends :: "task_metrics list option \<Rightarrow> trend_report list" where
  "detectDepartmentTrends fetched =
     (case fetched of
        None \<Rightarrow> []
      | Some metrics \<Rightarrow>
          if length metrics < 2 then []
          else
            (let first = metrics ! 0;
                 last = metrics ! (length metrics - 1);
                 delta = completedTasks last - completedTasks first;
                 trendType =
                   (if delta > 0 then ''increasing''
                    else if delta < 0 then ''decreasing''
                    else ''stable'')
             in [\<lparr>metric = ''completedTasks'', trend = trendType,
                  from_value = completedTasks first, to_value = completedTasks last\<rparr>]))"

section \<open>Forecasting\<close>

record forecast_point = dated +
  predicted :: int

text \<open>
  The three forecasters differ in the field they project and in the name of the
  predicted field (\<open>predictedCompletedTasks\<close>, \<open>predictedProductivityScore\<close>,
  \<open>predictedTotalTasks\<close>); \<open>predicted\<close> stands for each of the three names. The loop
  is the \<open>for (let i = 1; i <= 7; i++)\<close> of each of them, given the zone of the
  process, the last date, the last value and the average change.
\<close>

function forecast_loop ::
  "zone \<Rightarrow> day \<Rightarrow> real \<Rightarrow> real \<Rightarrow> int \<Rightarrow> forecast_point list \<Rightarrow> forecast_point list" where
  "forecast_loop z lastDate lastValue avgChange i forecast =
     (if i \<le> 7
      then
        (let nextDate = setDate_plus z (new_Date lastDate) i
         in forecast_loop z lastDate lastValue avgChange (i + 1)
              (push forecast
                 \<lparr>date = toISODate nextDate,
                  predicted =
                    Math_round (js_add lastValue (js_mul avgChange (real_of_int i)))\<rparr>))
      else forecast)"
  by pat_completeness auto
termination
  by (relation "measure (\<lambda>(z, lastDate, lastValue, avgChange, i, forecast). nat (8 - i))")
     auto

declare forecast_loop.simps [simp del]

definition forecastTaskCompletion :: "zone \<Rightarrow> task_metrics list option \<Rightarrow> forecast_point list" where
  "forecastTaskCompletion z fetched =
     (case fetched of
        None \<Rightarrow> []
      | Some metrics \<Rightarrow>
          if length metrics < 2 then []
          else
            (let lastMetric = metrics ! (length metrics - 1);
                 avgChange =
                   js_div
                     (js_sub (real_of_int (completedTasks lastMetric))
                        (real_of_int (completedTasks (metrics ! 0))))
                     (real (length metrics - 1))
             in forecast_loop z (date lastMetric) (real_of_int (completedTasks lastMetric))
                  avgChange 1 []))"

definition forecastUserProductivity ::
  "zone \<Rightarrow> user_performance list option \<Rightarrow> forecast_point list" where
  "forecastUserProductivity z fetched =
     (case fetched of
        None \<Rightarrow> []
      | Some performance \<Rightarrow>
          if length performance < 2 then []
          else
            (let lastPerf = performance ! (length performance - 1);
                 avgChange =
                   js_div
                     (js_sub (productivityScore lastPerf) (productivityScore (performance ! 0)))
                     (real (length performance - 1))
             in forecast_loop z (date lastPerf) (productivityScore lastPerf) avgChange 1 []))"

definition forecastDepartmentWorkload ::
  "zone \<Rightarrow> task_metrics list option \<Rightarrow> forecast_point list" where
  "forecastDepartmentWorkload z fetched =
     (case fetched of
        None \<Rightarrow> []
      | Some metrics \<Rightarrow>
          if length metrics < 2 then []
          else
            (let lastMetric = metrics ! (length metrics - 1);
                 avgChange =
                   js_div
                     (js_sub (real_of_int (totalTasks lastMetric))
                        (real_of_int (totalTasks (metrics ! 0))))
                     (real (length metrics - 1))
             in forecast_loop z (date lastMetric) (real_of_int (totalTasks lastMetric))
                  avgChange 1 []))"

section \<open>Snapshot aggregation\<close>

datatype status = pending | in_progress | completed | cancelled

datatype priority = low | medium | high | urgent

text \<open>
  A row of \<open>tasks\<close>: \<open>status\<close> and \<open>priority\<close> are the two enumerations of the table,
  \<open>dueDate\<close> may be null. \<open>comments\<close> holds the creation instants of the comments
  loaded with the task.
\<close>

record task =
  status :: status
  priority :: priority
  dueDate :: "instant option"
  createdAt :: instant
  updatedAt :: instant
  comments :: "instant list"

text \<open>\<open>new Date(v)\<close> for a nullable timestamp: \<open>new Date(null)\<close> is the epoch.\<close>

definition Date_of :: "instant option \<Rightarrow> instant" where
  "Date_of v = (case v of None \<Rightarrow> 0 | Some t \<Rightarrow> t)"

definition is_overdue :: "instant \<Rightarrow> task \<Rightarrow> bool" where
  "is_overdue now t = (status t \<noteq> completed \<and> Date_of (dueDate t) < now)"

text \<open>
  \<open>calculateTaskMetrics(departmentId, date)\<close> on the tasks fetched for the department,
  \<open>now\<close> being \<open>new Date()\<close>. The result is the row that \<open>updateDailyMetrics\<close> stores:
  the object computed, with the \<open>departmentId\<close> and the \<open>date\<close> of the call.
\<close>

definition calculateTaskMetrics :: "string \<Rightarrow> day \<Rightarrow> task list \<Rightarrow> instant \<Rightarrow> task_metrics" where
  "calculateTaskMetrics dep d tasks now =
     (let completedList = filter (\<lambda>t. status t = completed) tasks
      in \<lparr>date = d, departmentId = dep,
          totalTasks = int (length tasks),
          completedTasks = int (length completedList),
          pendingTasks = int (length (filter (\<lambda>t. status t = pending) tasks)),
          overdueTasks = int (length (filter (is_overdue now) tasks)),
          averageCompletionTime =
            (if length completedList > 0
             then real_of_int (foldl (\<lambda>sum t. sum + (updatedAt t - createdAt t)) 0 completedList)
                    / real (length completedList)
             else 0)\<rparr>)"

text \<open>\<open>calculateUserPerformance(userId, date)\<close> on the tasks fetched for the user.\<close>

definition calculateUserPerformance ::
  "string \<Rightarrow> day \<Rightarrow> task list \<Rightarrow> instant \<Rightarrow> user_performance" where
  "calculateUserPerformance uid d tasks now =
     (let completedCount = length (filter (\<lambda>t. status t = completed) tasks);
          overdueCount = length (filter (is_overdue now) tasks);
          tasksWithComments = filter (\<lambda>t. length (comments t) > 0) tasks;
          responseTime =
            (if length tasksWithComments > 0
             then real_of_int
                    (foldl (\<lambda>sum t. sum + (comments t ! 0 - createdAt t)) 0 tasksWithComments)
                    / real (length tasksWithComments)
             else 0);
          totalCount = length tasks;
          score =
            (if totalCount > 0
             then (let completionRate = real completedCount / real totalCount;
                       overdueRate = real overdueCount / real totalCount
                   in completionRate * 100 - overdueRate * 50)
             else 0)
      in \<lparr>date = d, userId = uid,
          tasksCompleted = int completedCount,
          tasksOverdue = int overdueCount,
          averageResponseTime = responseTime,
          productivityScore = score\<rparr>)"

subsection \<open>Task trends\<close>

text \<open>
  A counter held in an object property. Reading a property that is absent gives
  \<open>undefined\<close>, and \<open>undefined + 1\<close> is \<open>NaN\<close>, which stays \<open>NaN\<close>.
\<close>

datatype jsnum = Num int | NaN

text \<open>\<open>obj[key]++\<close>\<close>

definition increment :: "('k \<rightharpoonup> jsnum) \<Rightarrow> 'k \<Rightarrow> ('k \<rightharpoonup> jsnum)" where
  "increment obj k =
     obj(k \<mapsto> (case obj k of None \<Rightarrow> NaN | Some NaN \<Rightarrow> NaN | Some (Num n) \<Rightarrow> Num (n + 1)))"

definition priorityDistribution_init :: "priority \<rightharpoonup> jsnum" where
  "priorityDistribution_init = [high \<mapsto> Num 0, medium \<mapsto> Num 0, low \<mapsto> Num 0]"

definition statusDistribution_init :: "status \<rightharpoonup> jsnum" where
  "statusDistribution_init =
     [pending \<mapsto> Num 0, in_progress \<mapsto> Num 0, completed \<mapsto> Num 0, cancelled \<mapsto> Num 0]"

record trends =
  completionRate :: real
  averageResolutionTime :: real
  priorityDistribution :: "priority \<rightharpoonup> jsnum"
  statusDistribution :: "status \<rightharpoonup> jsnum"

text \<open>\<open>calculateTaskTrends\<close> on the tasks fetched for the department and the date range.\<close>

definition calculateTaskTrends :: "task list \<Rightarrow> trends" where
  "calculateTaskTrends tasks =
     (let completedList = filter (\<lambda>t. status t = completed) tasks
      in \<lparr>completionRate =
            (if length tasks > 0
             then real (length completedList) / real (length tasks) * 100
             else 0),
          averageResolutionTime =
            (if length completedList > 0
             then real_of_int (foldl (\<lambda>sum t. sum + (updatedAt t - createdAt t)) 0 completedList)
                    / real (length completedList)
             else 0),
          priorityDistribution =
            fold (\<lambda>t dist. increment dist (priority t)) tasks priorityDistribution_init,
          statusDistribution =
            fold (\<lambda>t dist. increment dist (status t)) tasks statusDistribution_init\<rparr>)"

subsection \<open>Performance trends\<close>

text \<open>
  A row of the result of \<open>getPerformanceTrends\<close>; its fields are \<open>date\<close>,
  \<open>completionRate\<close>, \<open>averageResolutionTime\<close> and \<open>productivityScore\<close> in the source.
  \<open>formatDate\<close> is the local function that renders the date for the period asked.
  \<open>metric.averageCompletionTime || 0\<close> is the stored number; a \<open>task_metrics\<close> row
  has no \<open>productivityScore\<close>, so \<open>metric.productivityScore || 0\<close> is \<open>0\<close>.
\<close>

record performance_trend =
  pt_date :: string
  pt_completionRate :: real
  pt_averageResolutionTime :: real
  pt_productivityScore :: real

definition performance_trend_row :: "(day \<Rightarrow> string) \<Rightarrow> task_metrics \<Rightarrow> performance_trend" where
  "performance_trend_row formatDate row =
     \<lparr>pt_date = formatDate (date row),
      pt_completionRate =
        (if totalTasks row > 0
         then real_of_int (completedTasks row) / real_of_int (totalTasks row) * 100
         else 0),
      pt_averageResolutionTime = averageCompletionTime row,
      pt_productivityScore = 0\<rparr>"

definition getPerformanceTrends ::
  "(day \<Rightarrow> string) \<Rightarrow> task_metrics list \<Rightarrow> performance_trend list" where
  "getPerformanceTrends formatDate metrics = map (performance_trend_row formatDate) metrics"

section \<open>The report scheduler\<close>

text \<open>
  The \<open>schedule\<close> column of a report is a JSON object: \<open>cron\<close> may be absent, \<open>lastSent\<close>
  is null or a timestamp.
\<close>

record schedule =
  cron :: "string option"
  lastSent :: "instant option"

text \<open>
  A row of \<open>CustomReport\<close> as the tick loads it, with the e-mail address of its
  creator (\<open>report.reportCreator.email\<close>; \<open>None\<close> when no creator is attached). The
  fields \<open>id\<close>, \<open>name\<close> and \<open>type\<close> of the source are \<open>report_id\<close>, \<open>report_name\<close> and
  \<open>report_type\<close>.
\<close>

record custom_report =
  report_id :: string
  report_name :: string
  report_type :: string
  schedule :: "schedule option"
  isActive :: bool
  creator_email :: "string option"

record mail =
  to_addr :: string
  subject :: string
  body :: string

text \<open>
  What the tick calls outside the scheduler. \<open>validate\<close> and \<open>nextDates\<close> belong to the
  cron library: \<open>nextDates c now\<close> is the instant that
  \<open>cron.schedule(c, () => {}, { scheduled: false }).nextDates().toDate()\<close> yields during
  the tick started at \<open>now\<close>, or \<open>None\<close> when that call throws.
  \<open>generateCustomReport\<close> is the report generator (\<open>Inl\<close> when it throws, \<open>Inr\<close> the
  data rendered as JSON); \<open>sendMail\<close> tells whether the transport delivered the mail;
  \<open>update_report\<close> tells whether \<open>report.update\<close> stored the new schedule.
\<close>

record env =
  validate :: "string \<Rightarrow> bool"
  nextDates :: "string \<Rightarrow> instant \<Rightarrow> instant option"
  generateCustomReport :: "string \<Rightarrow> instant \<Rightarrow> string + string"
  sendMail :: "mail \<Rightarrow> instant \<Rightarrow> bool"
  update_report :: "string \<Rightarrow> instant \<Rightarrow> bool"

definition formatReportData :: "custom_report \<Rightarrow> string \<Rightarrow> string" where
  "formatReportData report data =
     ''Report: '' @ report_name report @ [CHR 0x0A] @ ''Type: '' @ report_type report
       @ [CHR 0x0A, CHR 0x0A] @ ''Data:'' @ [CHR 0x0A] @ data"

text \<open>The arguments of the call of \<open>sendReportEmail\<close>: recipient, subject and text.\<close>

definition report_mail :: "custom_report \<Rightarrow> string \<Rightarrow> string \<Rightarrow> mail" where
  "report_mail report email reportData =
     \<lparr>to_addr = email,
      subject = ''Scheduled Report: '' @ report_name report,
      body = formatReportData report reportData\<rparr>"

text \<open>
  The expression assigned to \<open>shouldSend\<close>; \<open>None\<close> when evaluating it throws. The
  conjunction is evaluated from the left and stops at the first false operand.
\<close>

definition shouldSend :: "env \<Rightarrow> instant \<Rightarrow> string \<Rightarrow> instant option \<Rightarrow> bool option" where
  "shouldSend e now cronExpr lastSentV =
     (if \<not> validate e cronExpr then Some False
      else case nextDates e cronExpr now of
             None \<Rightarrow> None
           | Some next \<Rightarrow>
               if \<not> next \<le> now then Some False
               else Some (case lastSentV of None \<Rightarrow> True | Some l \<Rightarrow> l < now))"

datatype outcome = NotDue | GenerationFailed | SendFailed | UpdateFailed | Sent | Threw

text \<open>
  The body of the \<open>for\<close> loop for one report: what happened, the row as stored
  afterwards, and the mails the transport delivered.
\<close>

definition tick_body :: "env \<Rightarrow> instant \<Rightarrow> custom_report \<Rightarrow> outcome \<times> custom_report \<times> mail list" where
  "tick_body e now report =
     (let sched = (case schedule report of None \<Rightarrow> \<lparr>cron = None, lastSent = None\<rparr> | Some s \<Rightarrow> s)
      in case cron sched of
           None \<Rightarrow> (NotDue, report, [])
         | Some cronExpr \<Rightarrow>
             if cronExpr = [] then (NotDue, report, [])
             else
               (case shouldSend e now cronExpr (lastSent sched) of
                  None \<Rightarrow> (Threw, report, [])
                | Some False \<Rightarrow> (NotDue, report, [])
                | Some True \<Rightarrow>
                    (case generateCustomReport e (report_id report) now of
                       Inl err \<Rightarrow> (GenerationFailed, report, [])
                     | Inr reportData \<Rightarrow>
                         (case creator_email report of
                            None \<Rightarrow> (SendFailed, report, [])
                          | Some email \<Rightarrow>
                              (let m = report_mail report email reportData
                               in if \<not> sendMail e m now then (SendFailed, report, [])
                                  else if \<not> update_report e (report_id report) now
                                  then (UpdateFailed, report, [m])
                                  else (Sent,
                                        report\<lparr>schedule := Some (sched\<lparr>lastSent := Some now\<rparr>)\<rparr>,
                                        [m]))))))"

text \<open>
  One tick at \<open>now\<close> over the stored reports. \<open>findAll\<close> selects the active reports
  with a schedule; the loop handles them in order. The result is the store after the
  tick, the mails delivered, and whether the tick ended by an exception, which leaves
  the reports after the throwing one untouched.
\<close>

definition selected :: "custom_report \<Rightarrow> bool" where
  "selected report = (isActive report \<and> schedule report \<noteq> None)"

fun tick :: "env \<Rightarrow> instant \<Rightarrow> custom_report list \<Rightarrow> custom_report list \<times> mail list \<times> bool" where
  "tick e now [] = ([], [], False)"
| "tick e now (report # reports) =
     (if \<not> selected report
      then (case tick e now reports of (store, sent, threw) \<Rightarrow> (report # store, sent, threw))
      else
        (case tick_body e now report of
           (Threw, report1, mails) \<Rightarrow> (report # reports, [], True)
         | (result, report1, mails) \<Rightarrow>
             (case tick e now reports of
                (store, sent, threw) \<Rightarrow> (report1 # store, mails @ sent, threw))))"

section \<open>The rules of the specification\<close>

text \<open>
  An anomaly, in the words of the specification: the previous value is positive and
  the change relative to it exceeds one half.
\<close>

definition anomalous :: "int \<Rightarrow> int \<Rightarrow> bool" where
  "anomalous prev cur =
     (prev > 0 \<and> \<bar>real_of_int cur - real_of_int prev\<bar> / real_of_int prev > 0.5)"

text \<open>The record emitted for one metric of one adjacent pair: none unless anomalous.\<close>

definition anomaly_for :: "string \<Rightarrow> string \<Rightarrow> day \<Rightarrow> int \<Rightarrow> int \<Rightarrow> anomaly list" where
  "anomaly_for name label d prev cur =
     (if anomalous prev cur
      then [\<lparr>date = d, type = name,
             message = ''Significant change in '' @ label @ '': ''
               @ string_of_int prev @ '' '' @ arrow @ '' '' @ string_of_int cur\<rparr>]
      else [])"

definition task_pair_anomalies :: "task_metrics \<Rightarrow> task_metrics \<Rightarrow> anomaly list" where
  "task_pair_anomalies prev cur =
     anomaly_for ''completedTasks'' ''completed tasks'' (date cur)
       (completedTasks prev) (completedTasks cur)
     @ anomaly_for ''overdueTasks'' ''overdue tasks'' (date cur)
         (overdueTasks prev) (overdueTasks cur)"

definition user_pair_anomalies :: "user_performance \<Rightarrow> user_performance \<Rightarrow> anomaly list" where
  "user_pair_anomalies prev cur =
     anomaly_for ''tasksCompleted'' ''tasks completed'' (date cur)
       (tasksCompleted prev) (tasksCompleted cur)
     @ anomaly_for ''tasksOverdue'' ''overdue tasks'' (date cur)
         (tasksOverdue prev) (tasksOverdue cur)"






text \<open>
  The transition rule of the specification from Idle to Due. \<open>next_after c t\<close> is the
  first fire instant of the cron expression \<open>c\<close> strictly after \<open>t\<close>.
\<close>

definition due_rule :: "(string \<Rightarrow> instant \<Rightarrow> instant) \<Rightarrow> instant \<Rightarrow> custom_report \<Rightarrow> bool" where
  "due_rule next_after now report =
     (isActive report \<and>
      (case schedule report of
         None \<Rightarrow> False
       | Some s \<Rightarrow>
           (case cron s of
              None \<Rightarrow> False
            | Some c \<Rightarrow> c \<noteq> [] \<and> next_after c (Date_of (lastSent s)) \<le> now)))"

text \<open>
  The fire instants of \<open>0 8 * * 1\<close> are the Mondays at 08:00 (UTC here). The epoch is a
  Thursday, so the first of them is 4 days and 8 hours after it, and they are a week
  apart.
\<close>

definition msPerWeek :: int where
  "msPerWeek = 7 * msPerDay"

definition first_monday_0800 :: instant where
  "first_monday_0800 = 4 * msPerDay + 8 * 3600000"

definition next_monday_0800 :: "instant \<Rightarrow> instant" where
  "next_monday_0800 t =
     first_monday_0800 + ((t - first_monday_0800) div msPerWeek + 1) * msPerWeek"

text \<open>The first fire instant after \<open>t\<close>, for the expression \<open>0 8 * * 1\<close> of the sample report.\<close>

definition weekly_next_after :: "string \<Rightarrow> instant \<Rightarrow> instant" where
  "weekly_next_after c t = next_monday_0800 t"

subsection \<open>Sample data\<close>

definition sample_metrics :: "day \<Rightarrow> int \<Rightarrow> int \<Rightarrow> int \<Rightarrow> task_metrics" where
  "sample_metrics d n c ov =
     \<lparr>date = d, departmentId = ''DEP-20240601-00001'', totalTasks = n,
      completedTasks = c, pendingTasks = 0, overdueTasks = ov, averageCompletionTime = 0\<rparr>"


definition sample_task :: "status \<Rightarrow> priority \<Rightarrow> instant option \<Rightarrow> task" where
  "sample_task s p due =
     \<lparr>status = s, priority = p, dueDate = due, createdAt = 0, updatedAt = 3600000,
      comments = []\<rparr>"


text \<open>Scenario C: the weekly report, never sent, and the Monday 2024-06-03.\<close>

definition monday_0800 :: instant where "monday_0800 = 1717401600000"
definition monday_0804 :: instant where "monday_0804 = 1717401840000"
definition monday_0805 :: instant where "monday_0805 = 1717401900000"
definition monday_0900 :: instant where "monday_0900 = 1717405200000"

definition weekly_report :: "instant option \<Rightarrow> custom_report" where
  "weekly_report sent =
     \<lparr>report_id = ''RPT-20240601-00001'', report_name = ''Weekly tasks'',
      report_type = ''task'',
      schedule = Some \<lparr>cron = Some ''0 8 * * 1'', lastSent = sent\<rparr>,
      isActive = True, creator_email = Some ''admin@example.com''\<rparr>"


definition upcoming_fire :: "string \<Rightarrow> instant \<Rightarrow> instant option" where
  "upcoming_fire c t = Some (weekly_next_after c t)"

definition latest_fire :: "string \<Rightarrow> instant \<Rightarrow> instant option" where
  "latest_fire c t = Some (weekly_next_after c t - msPerWeek)"

text \<open>
  An environment with the given library answer and report generator, in which the
  mail transport and the store work.
\<close>

definition sample_env ::
  "(string \<Rightarrow> instant \<Rightarrow> instant option) \<Rightarrow> (string \<Rightarrow> instant \<Rightarrow> string + string) \<Rightarrow> env" where
  "sample_env nd gen =
     \<lparr>validate = (\<lambda>c. True), nextDates = nd, generateCustomReport = gen,
      sendMail = (\<lambda>m t. True), update_report = (\<lambda>i t. True)\<rparr>"

definition generation_ok :: "string \<Rightarrow> instant \<Rightarrow> string + string" where
  "generation_ok i t = Inr ''[]''"

definition generation_fails :: "string \<Rightarrow> instant \<Rightarrow> string + string" where
  "generation_fails i t = Inl ''Report not found''"

definition weekly_mail :: mail where
  "weekly_mail = report_mail (weekly_report None) ''admin@example.com'' ''[]''"

section \<open>Insufficient history\<close>

text \<open>
  C4. A series with fewer than two snapshots is not an error: for a null series, the
  empty series and every series of one snapshot, each of the three detectors and the
  three forecasters returns the empty list.
\<close>

theorem insufficient_history_empty:
  "detectTaskAnomalies None = [] \<and> detectTaskAnomalies (Some []) = []
     \<and> detectTaskAnomalies (Some [m]) = []
   \<and> detectUserActivityAnomalies None = [] \<and> detectUserActivityAnomalies (Some []) = []
     \<and> detectUserActivityAnomalies (Some [p]) = []
   \<and> detectDepartmentTrends None = [] \<and> detectDepartmentTrends (Some []) = []
     \<and> detectDepartmentTrends (Some [m]) = []
   \<and> forecastTaskCompletion tz None = [] \<and> forecastTaskCompletion tz (Some []) = []
     \<and> forecastTaskCompletion tz (Some [m]) = []
   \<and> forecastUserProductivity tz None = [] \<and> forecastUserProductivity tz (Some []) = []
     \<and> forecastUserProductivity tz (Some [p]) = []
   \<and> forecastDepartmentWorkload tz None = [] \<and> forecastDepartmentWorkload tz (Some []) = []
     \<and> forecastDepartmentWorkload tz (Some [m]) = []"
  by (simp add: detectTaskAnomalies_def detectUserActivityAnomalies_def
      detectDepartmentTrends_def forecastTaskCompletion_def forecastUserProductivity_def
      forecastDepartmentWorkload_def)
section \<open>Anomaly emission\<close>

lemma anomalous_code:
  "(0 < p \<and> \<bar>real_of_int (c - p)\<bar> / real_of_int p > 0.5) = anomalous p c"
  by (simp add: anomalous_def)

lemma detectTaskAnomalies_body_eq:
  "detectTaskAnomalies_body prev cur acc = acc @ task_pair_anomalies prev cur"
  unfolding detectTaskAnomalies_body_def anomalous_code task_pair_anomalies_def
    anomaly_for_def push_def Let_def
  by simp

lemma detectUserActivityAnomalies_body_eq:
  "detectUserActivityAnomalies_body prev cur acc = acc @ user_pair_anomalies prev cur"
  unfolding detectUserActivityAnomalies_body_def anomalous_code user_pair_anomalies_def
    anomaly_for_def push_def Let_def
  by simp

lemma detectTaskAnomalies_loop_eq:
  "detectTaskAnomalies_loop metrics i acc =
     acc @ concat (map (\<lambda>j. task_pair_anomalies (metrics ! (j - 1)) (metrics ! j))
                     [i ..< length metrics])"
proof (induction metrics i acc rule: detectTaskAnomalies_loop.induct)
  case (1 metrics i anomalies)
  show ?case
  proof (cases "i < length metrics")
    case True
    then have "[i ..< length metrics] = i # [i + 1 ..< length metrics]"
      by (simp add: upt_conv_Cons)
    with True "1" show ?thesis
      by (subst detectTaskAnomalies_loop.simps) (simp add: detectTaskAnomalies_body_eq)
  next
    case False
    then show ?thesis
      by (subst detectTaskAnomalies_loop.simps) simp
  qed
qed

lemma detectUserActivityAnomalies_loop_eq:
  "detectUserActivityAnomalies_loop performance i acc =
     acc @ concat (map (\<lambda>j. user_pair_anomalies (performance ! (j - 1)) (performance ! j))
                     [i ..< length performance])"
proof (induction performance i acc rule: detectUserActivityAnomalies_loop.induct)
  case (1 performance i anomalies)
  show ?case
  proof (cases "i < length performance")
    case True
    then have "[i ..< length performance] = i # [i + 1 ..< length performance]"
      by (simp add: upt_conv_Cons)
    with True "1" show ?thesis
      by (subst detectUserActivityAnomalies_loop.simps)
         (simp add: detectUserActivityAnomalies_body_eq)
  next
    case False
    then show ?thesis
      by (subst detectUserActivityAnomalies_loop.simps) simp
  qed
qed

lemma anomalous_int: "anomalous p c \<longleftrightarrow> 0 < p \<and> p < 2 * \<bar>c - p\<bar>"
proof (cases "0 < p")
  case True
  have "\<bar>real_of_int c - real_of_int p\<bar> = real_of_int \<bar>c - p\<bar>" by simp
  with True show ?thesis
    unfolding anomalous_def
    by (simp add: field_simps del: of_int_abs of_int_diff) linarith
next
  case False
  then show ?thesis by (simp add: anomalous_def)
qed

text \<open>
  C5. Anomaly emission is exact. For a series of department snapshots and a series of
  user snapshots, the detector returns, pair by adjacent pair in order, for each of
  the two metrics of the series, one record naming the metric and both values exactly
  when the pair is anomalous for that metric, and nothing else. A pair is anomalous
  exactly when the previous value is positive and twice the absolute change exceeds
  it: a relative change of exactly one half (from \<open>2k\<close> to \<open>3k\<close> or to \<open>k\<close>) emits
  nothing, and a previous value of zero emits nothing.
\<close>

theorem anomaly_emission_exact:
  "detectTaskAnomalies (Some metrics) =
     concat (map (\<lambda>i. task_pair_anomalies (metrics ! (i - 1)) (metrics ! i))
                 [1 ..< length metrics])
   \<and> detectUserActivityAnomalies (Some performance) =
     concat (map (\<lambda>i. user_pair_anomalies (performance ! (i - 1)) (performance ! i))
                 [1 ..< length performance])
   \<and> (anomalous p c \<longleftrightarrow> 0 < p \<and> p < 2 * \<bar>c - p\<bar>)
   \<and> \<not> anomalous (2 * k) (3 * k) \<and> \<not> anomalous (2 * k) k
   \<and> \<not> anomalous 0 c"
proof -
  have a: "detectTaskAnomalies (Some metrics) =
     concat (map (\<lambda>i. task_pair_anomalies (metrics ! (i - 1)) (metrics ! i))
                 [1 ..< length metrics])"
    by (simp add: detectTaskAnomalies_def detectTaskAnomalies_loop_eq)
  have b: "detectUserActivityAnomalies (Some performance) =
     concat (map (\<lambda>i. user_pair_anomalies (performance ! (i - 1)) (performance ! i))
                 [1 ..< length performance])"
    by (simp add: detectUserActivityAnomalies_def detectUserActivityAnomalies_loop_eq)
  have c: "\<not> anomalous (2 * k) (3 * k)" "\<not> anomalous (2 * k) k" "\<not> anomalous 0 c"
    by (simp_all add: anomalous_int)
  show ?thesis by (intro conjI a b c anomalous_int)
qed

section \<open>Forecasts\<close>

subsection \<open>Doubles\<close>








subsection \<open>The loop\<close>
















section \<open>Trends\<close>

lemma trend_of_ends:
  "detectDepartmentTrends (Some (m0 # mid @ [mn])) =
     [\<lparr>metric = ''completedTasks'',
       trend = (if completedTasks mn - completedTasks m0 > 0 then ''increasing''
                else if completedTasks mn - completedTasks m0 < 0 then ''decreasing''
                else ''stable''),
       from_value = completedTasks m0, to_value = completedTasks mn\<rparr>]"
  by (simp add: detectDepartmentTrends_def Let_def nth_append)

lemma ends_split:
  assumes "2 \<le> length xs"
  shows "xs = hd xs # butlast (tl xs) @ [last xs]"
proof -
  from assms have ne: "xs \<noteq> []" "tl xs \<noteq> []"
    by (cases xs; auto)+
  then have "last (tl xs) = last xs"
    by (simp add: last_tl)
  with ne show ?thesis
    by (metis append_butlast_last_id list.collapse)
qed

text \<open>
  C7. Trend detection compares only the endpoints. For a series with first snapshot
  \<open>m0\<close>, last snapshot \<open>mn\<close> and any snapshots in between, the detector reports once,
  on the metric \<open>completedTasks\<close>, from the first value to the last, with the
  direction \<open>increasing\<close>, \<open>decreasing\<close> or \<open>stable\<close> as the last value minus the first
  is positive, negative or zero; and the report on any series of at least two
  snapshots is the report on its two endpoints alone.
\<close>

theorem trend_endpoints_only:
  "detectDepartmentTrends (Some (m0 # mid @ [mn])) =
     [\<lparr>metric = ''completedTasks'',
       trend = (if completedTasks mn - completedTasks m0 > 0 then ''increasing''
                else if completedTasks mn - completedTasks m0 < 0 then ''decreasing''
                else ''stable''),
       from_value = completedTasks m0, to_value = completedTasks mn\<rparr>]
   \<and> (2 \<le> length metrics \<longrightarrow>
        detectDepartmentTrends (Some metrics) =
          detectDepartmentTrends (Some [hd metrics, last metrics]))"
proof -
  have "detectDepartmentTrends (Some metrics) =
          detectDepartmentTrends (Some [hd metrics, last metrics])"
    if "2 \<le> length metrics"
  proof -
    have "detectDepartmentTrends (Some (hd metrics # butlast (tl metrics) @ [last metrics])) =
          detectDepartmentTrends (Some (hd metrics # [] @ [last metrics]))"
      by (simp only: trend_of_ends)
    with ends_split [OF that] show ?thesis by simp
  qed
  with trend_of_ends show ?thesis by blast
qed

theorem trend_endpoints_only_witness:
  "detectDepartmentTrends
     (Some [sample_metrics 19875 10 5 0, sample_metrics 19876 10 5 0,
            sample_metrics 19877 16 9 0]) =
     [\<lparr>metric = ''completedTasks'', trend = ''increasing'', from_value = 5, to_value = 9\<rparr>]"
  using trend_endpoints_only
    [of "sample_metrics 19875 10 5 0" "[]" "sample_metrics 19877 16 9 0"
        "[sample_metrics 19875 10 5 0, sample_metrics 19876 10 5 0,
          sample_metrics 19877 16 9 0]"]
  by (simp add: sample_metrics_def)

section \<open>Completion rate and productivity score\<close>

lemma ratio_bounds:
  fixes c n :: nat
  assumes "c \<le> n" and "0 < n"
  shows "0 \<le> real c / real n" and "real c / real n \<le> 1"
  using assms by simp_all

lemma pct_bounds:
  fixes x :: real
  assumes "0 \<le> x" and "x \<le> 1"
  shows "0 \<le> x * 100" and "x * 100 \<le> 100"
proof -
  from assms(1) show "0 \<le> x * 100" by linarith
  from assms(2) show "x * 100 \<le> 100" by linarith
qed

lemma row_rate_bounds:
  fixes c t :: int
  assumes "0 \<le> c" and "c \<le> t" and "0 < t"
  shows "0 \<le> real_of_int c / real_of_int t * 100" and "real_of_int c / real_of_int t * 100 \<le> 100"
proof -
  from assms have "0 \<le> real_of_int c / real_of_int t" and "real_of_int c / real_of_int t \<le> 1"
    by simp_all
  then show "0 \<le> real_of_int c / real_of_int t * 100"
    and "real_of_int c / real_of_int t * 100 \<le> 100"
    by (rule pct_bounds)+
qed

lemma completionRate_eq:
  "completionRate (calculateTaskTrends tasks) =
     (if length tasks > 0
      then real (length (filter (\<lambda>t. status t = completed) tasks)) / real (length tasks) * 100
      else 0)"
  by (simp add: calculateTaskTrends_def Let_def)

lemma completionRate_bounds:
  "0 \<le> completionRate (calculateTaskTrends tasks)"
  "completionRate (calculateTaskTrends tasks) \<le> 100"
proof -
  let ?c = "length (filter (\<lambda>t. status t = completed) tasks)"
  have le: "?c \<le> length tasks" by simp
  show "0 \<le> completionRate (calculateTaskTrends tasks)"
    by (simp add: completionRate_eq)
  show "completionRate (calculateTaskTrends tasks) \<le> 100"
  proof (cases "length tasks > 0")
    case True
    with le have "0 \<le> real ?c / real (length tasks)" and "real ?c / real (length tasks) \<le> 1"
      by (simp_all add: ratio_bounds)
    then have "real ?c / real (length tasks) * 100 \<le> 100"
      by (rule pct_bounds)
    with True show ?thesis
      by (simp only: completionRate_eq if_True)
  next
    case False
    then show ?thesis by (simp add: completionRate_eq)
  qed
qed

lemma pt_completionRate_eq:
  "pt_completionRate (performance_trend_row formatDate m) =
     (if totalTasks m > 0
      then real_of_int (completedTasks m) / real_of_int (totalTasks m) * 100
      else 0)"
  by (simp add: performance_trend_row_def)

lemma calculateTaskMetrics_counts:
  "totalTasks (calculateTaskMetrics dep d tasks now) = int (length tasks)"
  "completedTasks (calculateTaskMetrics dep d tasks now) =
     int (length (filter (\<lambda>t. status t = completed) tasks))"
  by (simp_all add: calculateTaskMetrics_def Let_def)

text \<open>
  C8. The completion rate is total and bounded. Over a task set
  (\<open>calculateTaskTrends\<close>) it is the share of completed tasks times 100 when there is
  a task and 0 when there is none, and it lies in \<open>[0, 100]\<close>. Over snapshots
  (\<open>getPerformanceTrends\<close>) each row gets \<open>completedTasks / totalTasks * 100\<close> when
  \<open>totalTasks > 0\<close> and 0 otherwise; the rate lies in \<open>[0, 100]\<close> for every snapshot
  whose completed count lies between 0 and its total, which holds for every snapshot
  that \<open>calculateTaskMetrics\<close> computes.
\<close>

theorem completion_rate_bounded:
  "completionRate (calculateTaskTrends tasks) =
     (if length tasks > 0
      then real (length (filter (\<lambda>t. status t = completed) tasks)) / real (length tasks) * 100
      else 0)
   \<and> 0 \<le> completionRate (calculateTaskTrends tasks)
   \<and> completionRate (calculateTaskTrends tasks) \<le> 100
   \<and> completionRate (calculateTaskTrends []) = 0
   \<and> map pt_completionRate (getPerformanceTrends formatDate metrics) =
       map (\<lambda>m. if totalTasks m > 0
                 then real_of_int (completedTasks m) / real_of_int (totalTasks m) * 100
                 else 0) metrics
   \<and> (0 \<le> completedTasks m \<and> completedTasks m \<le> totalTasks m \<longrightarrow>
        0 \<le> pt_completionRate (performance_trend_row formatDate m)
        \<and> pt_completionRate (performance_trend_row formatDate m) \<le> 100)
   \<and> (totalTasks m = 0 \<longrightarrow> pt_completionRate (performance_trend_row formatDate m) = 0)
   \<and> 0 \<le> completedTasks (calculateTaskMetrics dep d tasks now)
   \<and> completedTasks (calculateTaskMetrics dep d tasks now)
       \<le> totalTasks (calculateTaskMetrics dep d tasks now)"
proof -
  have 4: "completionRate (calculateTaskTrends []) = 0"
    by (simp add: completionRate_eq)
  have 5: "map pt_completionRate (getPerformanceTrends formatDate metrics) =
       map (\<lambda>m. if totalTasks m > 0
                 then real_of_int (completedTasks m) / real_of_int (totalTasks m) * 100
                 else 0) metrics"
    by (simp add: getPerformanceTrends_def pt_completionRate_eq)
  have 6: "0 \<le> completedTasks m \<and> completedTasks m \<le> totalTasks m \<longrightarrow>
        0 \<le> pt_completionRate (performance_trend_row formatDate m)
        \<and> pt_completionRate (performance_trend_row formatDate m) \<le> 100"
  proof (cases "totalTasks m > 0")
    case True
    then show ?thesis
      using row_rate_bounds [of "completedTasks m" "totalTasks m"]
      by (simp add: pt_completionRate_eq)
  next
    case False
    then show ?thesis by (simp add: pt_completionRate_eq)
  qed
  have 7: "totalTasks m = 0 \<longrightarrow> pt_completionRate (performance_trend_row formatDate m) = 0"
    by (simp add: pt_completionRate_eq)
  have 8: "0 \<le> completedTasks (calculateTaskMetrics dep d tasks now)"
    by (simp add: calculateTaskMetrics_counts)
  have 9: "completedTasks (calculateTaskMetrics dep d tasks now)
       \<le> totalTasks (calculateTaskMetrics dep d tasks now)"
    by (simp add: calculateTaskMetrics_counts)
  show ?thesis
    by (intro conjI completionRate_eq completionRate_bounds 4 5 6 7 8 9)
qed

theorem completion_rate_bounded_witness:
  "completionRate
     (calculateTaskTrends
        [sample_task completed high None, sample_task pending low None,
         sample_task completed medium None, sample_task cancelled low None]) = 50
   \<and> map pt_completionRate
       (getPerformanceTrends (\<lambda>d. ''2024-06-03'')
          [sample_metrics 19876 0 0 0, sample_metrics 19877 16 9 0]) = [0, 225 / 4]
   \<and> pt_completionRate
       (performance_trend_row (\<lambda>d. ''2024-06-03'') (sample_metrics 19877 16 9 0)) \<le> 100
   \<and> pt_completionRate
       (performance_trend_row (\<lambda>d. ''2024-06-03'') (sample_metrics 19876 0 0 0)) = 0"
  using completion_rate_bounded
    [of "[sample_task completed high None, sample_task pending low None,
          sample_task completed medium None, sample_task cancelled low None]"
        "\<lambda>d. ''2024-06-03''"
        "[sample_metrics 19876 0 0 0, sample_metrics 19877 16 9 0]"
        "sample_metrics 19877 16 9 0" "''DEP-20240601-00001''" 19877 monday_0800]
    completion_rate_bounded
    [of "[]" "\<lambda>d. ''2024-06-03''" "[]" "sample_metrics 19876 0 0 0"
        "''DEP-20240601-00001''" 19876 monday_0800]
  by (simp add: sample_task_def sample_metrics_def)

lemma productivityScore_eq:
  "productivityScore (calculateUserPerformance uid d tasks now) =
     (if length tasks > 0
      then real (length (filter (\<lambda>t. status t = completed) tasks)) / real (length tasks) * 100
           - real (length (filter (is_overdue now) tasks)) / real (length tasks) * 50
      else 0)"
  by (simp add: calculateUserPerformance_def Let_def)

lemma performance_counts:
  "tasksCompleted (calculateUserPerformance uid d tasks now) =
     int (length (filter (\<lambda>t. status t = completed) tasks))"
  "tasksOverdue (calculateUserPerformance uid d tasks now) =
     int (length (filter (is_overdue now) tasks))"
  by (simp_all add: calculateUserPerformance_def Let_def)

lemma score_lin:
  fixes x y :: real
  assumes "0 \<le> x" and "x \<le> 1" and "0 \<le> y" and "y \<le> 1"
  shows "- 50 \<le> x * 100 - y * 50" and "x * 100 - y * 50 \<le> 100"
proof -
  from assms(1,4) show "- 50 \<le> x * 100 - y * 50" by linarith
  from assms(2,3) show "x * 100 - y * 50 \<le> 100" by linarith
qed

lemma score_arith:
  fixes c ov n :: nat
  assumes "c \<le> n" and "ov \<le> n" and "0 < n"
  shows "- 50 \<le> real c / real n * 100 - real ov / real n * 50"
    and "real c / real n * 100 - real ov / real n * 50 \<le> 100"
    and "real c / real n * 100 - real ov / real n * 50 < 0 \<longleftrightarrow> 2 * int c < int ov"
proof -
  from assms have x: "0 \<le> real c / real n" "real c / real n \<le> 1"
    and y: "0 \<le> real ov / real n" "real ov / real n \<le> 1"
    by simp_all
  from x y show "- 50 \<le> real c / real n * 100 - real ov / real n * 50"
    by (rule score_lin)
  from x y show "real c / real n * 100 - real ov / real n * 50 \<le> 100"
    by (rule score_lin)
  have "real c / real n * 100 - real ov / real n * 50 = (100 * real c - 50 * real ov) / real n"
    by (simp add: diff_divide_distrib mult.commute)
  also have "\<dots> < 0 \<longleftrightarrow> 100 * real c - 50 * real ov < 0"
    using assms(3) by (simp add: divide_less_0_iff)
  also have "\<dots> \<longleftrightarrow> 2 * real c < real ov"
    by linarith
  also have "\<dots> \<longleftrightarrow> 2 * int c < int ov"
    by linarith
  finally show "real c / real n * 100 - real ov / real n * 50 < 0 \<longleftrightarrow> 2 * int c < int ov" .
qed

text \<open>
  C9. The productivity score, unclamped. With \<open>n\<close> tasks of which \<open>c\<close> are completed
  and \<open>o\<close> overdue, \<open>calculateUserPerformance\<close> returns the score
  \<open>c / n * 100 - o / n * 50\<close> when \<open>n > 0\<close> and 0 when \<open>n = 0\<close>. The score is never
  cut to \<open>[0, 100]\<close>: it lies between \<open>-50\<close> and \<open>100\<close>, it is negative exactly when the
  overdue tasks outnumber twice the completed ones, and two open tasks past their due
  date give \<open>-50\<close>.
\<close>

theorem productivity_score_unclamped:
  "productivityScore (calculateUserPerformance uid d tasks now) =
     (if length tasks > 0
      then real (length (filter (\<lambda>t. status t = completed) tasks)) / real (length tasks) * 100
           - real (length (filter (is_overdue now) tasks)) / real (length tasks) * 50
      else 0)
   \<and> tasksCompleted (calculateUserPerformance uid d tasks now) =
       int (length (filter (\<lambda>t. status t = completed) tasks))
   \<and> tasksOverdue (calculateUserPerformance uid d tasks now) =
       int (length (filter (is_overdue now) tasks))
   \<and> - 50 \<le> productivityScore (calculateUserPerformance uid d tasks now)
   \<and> productivityScore (calculateUserPerformance uid d tasks now) \<le> 100
   \<and> (productivityScore (calculateUserPerformance uid d tasks now) < 0 \<longleftrightarrow>
        2 * tasksCompleted (calculateUserPerformance uid d tasks now)
          < tasksOverdue (calculateUserPerformance uid d tasks now))
   \<and> productivityScore (calculateUserPerformance uid d [] now) = 0
   \<and> productivityScore
         (calculateUserPerformance ''USR-20240601-00001'' 19877
            [sample_task pending low (Some 0), sample_task in_progress high None]
            monday_0800) = - 50"
proof -
  let ?c = "length (filter (\<lambda>t. status t = completed) tasks)"
  let ?o = "length (filter (is_overdue now) tasks)"
  let ?n = "length tasks"
  have c: "?c \<le> ?n" and ov: "?o \<le> ?n"
    by simp_all
  have 4: "- 50 \<le> productivityScore (calculateUserPerformance uid d tasks now)"
    using score_arith(1) [OF c ov] by (simp add: productivityScore_eq)
  have 5: "productivityScore (calculateUserPerformance uid d tasks now) \<le> 100"
    using score_arith(2) [OF c ov] by (simp add: productivityScore_eq)
  have 6: "productivityScore (calculateUserPerformance uid d tasks now) < 0 \<longleftrightarrow>
        2 * tasksCompleted (calculateUserPerformance uid d tasks now)
          < tasksOverdue (calculateUserPerformance uid d tasks now)"
  proof (cases "?n > 0")
    case True
    with score_arith(3) [OF c ov] show ?thesis
      by (simp add: productivityScore_eq performance_counts)
  next
    case False
    then show ?thesis
      by (simp add: productivityScore_eq performance_counts)
  qed
  have 7: "productivityScore (calculateUserPerformance uid d [] now) = 0"
    by (simp add: productivityScore_eq)
  have 8: "productivityScore
         (calculateUserPerformance ''USR-20240601-00001'' 19877
            [sample_task pending low (Some 0), sample_task in_progress high None]
            monday_0800) = - 50"
    by (simp add: productivityScore_eq is_overdue_def Date_of_def sample_task_def
        monday_0800_def)
  show ?thesis
    by (intro conjI productivityScore_eq performance_counts 4 5 6 7 8)
qed

section \<open>Distribution counters\<close>

lemma fold_increment:
  "fold (\<lambda>t dist. increment dist (f t)) ts dist0 k =
     (case dist0 k of
        Some (Num n) \<Rightarrow> Some (Num (n + int (length (filter (\<lambda>t. f t = k) ts))))
      | Some NaN \<Rightarrow> Some NaN
      | None \<Rightarrow> if k \<in> f ` set ts then Some NaN else None)"
proof (induction ts arbitrary: dist0)
  case Nil
  then show ?case
    by (simp split: option.splits jsnum.splits)
next
  case (Cons t ts)
  show ?case
  proof (cases "f t = k")
    case True
    have "increment dist0 k k =
            Some (case dist0 k of None \<Rightarrow> NaN | Some NaN \<Rightarrow> NaN | Some (Num n) \<Rightarrow> Num (n + 1))"
      by (simp add: increment_def)
    with True show ?thesis
      by (simp add: Cons.IH split: option.splits jsnum.splits)
  next
    case False
    then have "increment dist0 (f t) k = dist0 k"
      by (simp add: increment_def)
    with False show ?thesis
      by (simp add: Cons.IH split: option.splits jsnum.splits)
  qed
qed

lemma priority_partition:
  "int (length (filter (\<lambda>t. priority t = high) tasks))
   + int (length (filter (\<lambda>t. priority t = medium) tasks))
   + int (length (filter (\<lambda>t. priority t = low) tasks))
   = int (length tasks) - int (length (filter (\<lambda>t. priority t = urgent) tasks))"
proof (induction tasks)
  case Nil
  then show ?case by simp
next
  case (Cons t tasks)
  then show ?case by (cases "priority t") simp_all
qed

lemma priorityDistribution_fold:
  "priorityDistribution (calculateTaskTrends tasks) =
     fold (\<lambda>t dist. increment dist (priority t)) tasks priorityDistribution_init"
  by (simp add: calculateTaskTrends_def Let_def)

text \<open>
  C10. \<open>calculateTaskTrends\<close> counts only the keys it initialises. The priority
  distribution starts with the keys \<open>high\<close>, \<open>medium\<close>, \<open>low\<close> and the status
  distribution with \<open>pending\<close>, \<open>in_progress\<close>, \<open>completed\<close>, \<open>cancelled\<close>. For every
  task list, each of the three priority counters ends as the number of tasks of that
  priority; the key \<open>urgent\<close> is absent when no task is urgent and holds \<open>NaN\<close> as soon
  as one is. So the three counters add up to the number of tasks when no task is
  urgent, and in general to the number of tasks that are not urgent: urgent tasks are
  never counted.
\<close>

theorem distribution_keys_counted:
  "dom priorityDistribution_init = {high, medium, low}
   \<and> dom statusDistribution_init = {pending, in_progress, completed, cancelled}
   \<and> priorityDistribution (calculateTaskTrends tasks) high =
       Some (Num (int (length (filter (\<lambda>t. priority t = high) tasks))))
   \<and> priorityDistribution (calculateTaskTrends tasks) medium =
       Some (Num (int (length (filter (\<lambda>t. priority t = medium) tasks))))
   \<and> priorityDistribution (calculateTaskTrends tasks) low =
       Some (Num (int (length (filter (\<lambda>t. priority t = low) tasks))))
   \<and> priorityDistribution (calculateTaskTrends tasks) urgent =
       (if urgent \<in> priority ` set tasks then Some NaN else None)
   \<and> (urgent \<notin> priority ` set tasks \<longrightarrow>
        int (length (filter (\<lambda>t. priority t = high) tasks))
        + int (length (filter (\<lambda>t. priority t = medium) tasks))
        + int (length (filter (\<lambda>t. priority t = low) tasks))
        = int (length tasks))
   \<and> int (length (filter (\<lambda>t. priority t = high) tasks))
       + int (length (filter (\<lambda>t. priority t = medium) tasks))
       + int (length (filter (\<lambda>t. priority t = low) tasks))
       = int (length tasks) - int (length (filter (\<lambda>t. priority t = urgent) tasks))"
proof -
  have 1: "dom priorityDistribution_init = {high, medium, low}"
    by (auto simp: priorityDistribution_init_def split: if_splits)
  have 2: "dom statusDistribution_init = {pending, in_progress, completed, cancelled}"
    by (auto simp: statusDistribution_init_def split: if_splits)
  have 3: "priorityDistribution (calculateTaskTrends tasks) high =
       Some (Num (int (length (filter (\<lambda>t. priority t = high) tasks))))"
    by (simp add: priorityDistribution_fold fold_increment priorityDistribution_init_def)
  have 4: "priorityDistribution (calculateTaskTrends tasks) medium =
       Some (Num (int (length (filter (\<lambda>t. priority t = medium) tasks))))"
    by (simp add: priorityDistribution_fold fold_increment priorityDistribution_init_def)
  have 5: "priorityDistribution (calculateTaskTrends tasks) low =
       Some (Num (int (length (filter (\<lambda>t. priority t = low) tasks))))"
    by (simp add: priorityDistribution_fold fold_increment priorityDistribution_init_def)
  have 6: "priorityDistribution (calculateTaskTrends tasks) urgent =
       (if urgent \<in> priority ` set tasks then Some NaN else None)"
    by (simp add: priorityDistribution_fold fold_increment priorityDistribution_init_def)
  have "filter (\<lambda>t. priority t = urgent) tasks = []" if "urgent \<notin> priority ` set tasks"
    using that by (induction tasks) auto
  with priority_partition [of tasks]
  have 7: "urgent \<notin> priority ` set tasks \<longrightarrow>
        int (length (filter (\<lambda>t. priority t = high) tasks))
        + int (length (filter (\<lambda>t. priority t = medium) tasks))
        + int (length (filter (\<lambda>t. priority t = low) tasks))
        = int (length tasks)"
    by simp
  show ?thesis
    by (intro conjI 1 2 3 4 5 6 7 priority_partition)
qed

theorem distribution_keys_counted_witness:
  "priorityDistribution
     (calculateTaskTrends
        [sample_task pending high None, sample_task completed low None,
         sample_task pending low None]) low = Some (Num 2)
   \<and> priorityDistribution
     (calculateTaskTrends
        [sample_task pending high None, sample_task completed low None,
         sample_task pending low None]) urgent = None
   \<and> priorityDistribution
     (calculateTaskTrends
        [sample_task pending urgent None, sample_task completed low None,
         sample_task pending urgent None]) urgent = Some NaN
   \<and> priorityDistribution
     (calculateTaskTrends
        [sample_task pending urgent None, sample_task completed low None,
         sample_task pending urgent None]) low = Some (Num 1)"
  using distribution_keys_counted
    [of "[sample_task pending high None, sample_task completed low None,
          sample_task pending low None]"]
    distribution_keys_counted
    [of "[sample_task pending urgent None, sample_task completed low None,
          sample_task pending urgent None]"]
  by (simp add: sample_task_def)

section \<open>The scheduler tick\<close>

lemma tick_body_due:
  assumes "schedule report = Some s" and "cron s = Some c" and "c \<noteq> []"
    and "shouldSend e now c (lastSent s) = Some True"
  shows "tick_body e now report =
     (case generateCustomReport e (report_id report) now of
        Inl err \<Rightarrow> (GenerationFailed, report, [])
      | Inr reportData \<Rightarrow>
          (case creator_email report of
             None \<Rightarrow> (SendFailed, report, [])
           | Some email \<Rightarrow>
               if \<not> sendMail e (report_mail report email reportData) now
               then (SendFailed, report, [])
               else if \<not> update_report e (report_id report) now
               then (UpdateFailed, report, [report_mail report email reportData])
               else (Sent, report\<lparr>schedule := Some (s\<lparr>lastSent := Some now\<rparr>)\<rparr>,
                     [report_mail report email reportData])))"
  using assms by (simp add: tick_body_def Let_def split: sum.splits option.splits)

lemma tick_body_changed_sent:
  assumes "fst (snd (tick_body e now report)) \<noteq> report"
  shows "fst (tick_body e now report) = Sent"
    and "\<exists>m. snd (snd (tick_body e now report)) = [m] \<and> sendMail e m now"
    and "\<exists>s. fst (snd (tick_body e now report)) = report\<lparr>schedule := Some (s\<lparr>lastSent := Some now\<rparr>)\<rparr>"
  using assms
  by (auto simp: tick_body_def Let_def
      split: option.splits bool.splits sum.splits if_splits)

lemma tick_moves_on:
  assumes "selected report" and "tick_body e now report = (res, report, [])" and "res \<noteq> Threw"
  shows "tick e now (report # reports) =
           (report # fst (tick e now reports), fst (snd (tick e now reports)),
            snd (snd (tick e now reports)))"
  using assms by (cases res) (simp_all split: prod.splits)

text \<open>
  C3. Failure atomicity of a scheduled dispatch. For a report that is due at the tick
  \<open>now\<close>: if the generator throws, or if it returns and the mail is not delivered, the
  loop body leaves the stored report as it was and delivers nothing; if the mail is
  delivered and the update is stored, the report is stored with \<open>lastSent = now\<close> and
  nothing else changed. The stored report differs after the body only when a mail was
  delivered, and then by \<open>lastSent = now\<close>. After a failure the tick goes on with the
  remaining reports and the store keeps the report unchanged, so the next tick
  evaluates it again.
\<close>

theorem failure_leaves_schedule:
  assumes "schedule report = Some s" and "cron s = Some c" and "c \<noteq> []"
    and "shouldSend e now c (lastSent s) = Some True"
  shows "(generateCustomReport e (report_id report) now = Inl err \<longrightarrow>
            tick_body e now report = (GenerationFailed, report, []))
       \<and> (generateCustomReport e (report_id report) now = Inr reportData
            \<and> creator_email report = Some email
            \<and> \<not> sendMail e (report_mail report email reportData) now \<longrightarrow>
            tick_body e now report = (SendFailed, report, []))
       \<and> (generateCustomReport e (report_id report) now = Inr reportData
            \<and> creator_email report = Some email
            \<and> sendMail e (report_mail report email reportData) now
            \<and> update_report e (report_id report) now \<longrightarrow>
            tick_body e now report =
              (Sent, report\<lparr>schedule := Some (s\<lparr>lastSent := Some now\<rparr>)\<rparr>,
               [report_mail report email reportData]))
       \<and> (fst (snd (tick_body e now report)) \<noteq> report \<longrightarrow>
            fst (tick_body e now report) = Sent
            \<and> (\<exists>m. snd (snd (tick_body e now report)) = [m] \<and> sendMail e m now)
            \<and> fst (snd (tick_body e now report)) =
                report\<lparr>schedule := Some (s\<lparr>lastSent := Some now\<rparr>)\<rparr>)
       \<and> (isActive report
            \<and> (tick_body e now report = (GenerationFailed, report, [])
                \<or> tick_body e now report = (SendFailed, report, [])) \<longrightarrow>
            tick e now (report # reports) =
              (report # fst (tick e now reports), fst (snd (tick e now reports)),
               snd (snd (tick e now reports)))
            \<and> fst (tick e now [report]) = [report])"
proof -
  note body = tick_body_due [OF assms]
  have 1: "generateCustomReport e (report_id report) now = Inl err \<longrightarrow>
            tick_body e now report = (GenerationFailed, report, [])"
    by (simp add: body)
  have 2: "generateCustomReport e (report_id report) now = Inr reportData
            \<and> creator_email report = Some email
            \<and> \<not> sendMail e (report_mail report email reportData) now \<longrightarrow>
            tick_body e now report = (SendFailed, report, [])"
    by (simp add: body)
  have 3: "generateCustomReport e (report_id report) now = Inr reportData
            \<and> creator_email report = Some email
            \<and> sendMail e (report_mail report email reportData) now
            \<and> update_report e (report_id report) now \<longrightarrow>
            tick_body e now report =
              (Sent, report\<lparr>schedule := Some (s\<lparr>lastSent := Some now\<rparr>)\<rparr>,
               [report_mail report email reportData])"
    by (simp add: body)
  have 4: "fst (snd (tick_body e now report)) \<noteq> report \<longrightarrow>
            fst (tick_body e now report) = Sent
            \<and> (\<exists>m. snd (snd (tick_body e now report)) = [m] \<and> sendMail e m now)
            \<and> fst (snd (tick_body e now report)) =
                report\<lparr>schedule := Some (s\<lparr>lastSent := Some now\<rparr>)\<rparr>"
  proof
    assume changed: "fst (snd (tick_body e now report)) \<noteq> report"
    from changed have "fst (snd (tick_body e now report)) =
        report\<lparr>schedule := Some (s\<lparr>lastSent := Some now\<rparr>)\<rparr>"
      unfolding body by (auto split: sum.splits option.splits if_splits)
    with tick_body_changed_sent(1,2) [OF changed]
    show "fst (tick_body e now report) = Sent
            \<and> (\<exists>m. snd (snd (tick_body e now report)) = [m] \<and> sendMail e m now)
            \<and> fst (snd (tick_body e now report)) =
                report\<lparr>schedule := Some (s\<lparr>lastSent := Some now\<rparr>)\<rparr>"
      by simp
  qed
  have 5: "isActive report
            \<and> (tick_body e now report = (GenerationFailed, report, [])
                \<or> tick_body e now report = (SendFailed, report, [])) \<longrightarrow>
            tick e now (report # reports) =
              (report # fst (tick e now reports), fst (snd (tick e now reports)),
               snd (snd (tick e now reports)))
            \<and> fst (tick e now [report]) = [report]"
  proof
    assume a: "isActive report
            \<and> (tick_body e now report = (GenerationFailed, report, [])
                \<or> tick_body e now report = (SendFailed, report, []))"
    with assms(1) have sel: "selected report"
      by (simp add: selected_def)
    from a obtain res where res: "tick_body e now report = (res, report, [])" "res \<noteq> Threw"
      by auto
    from tick_moves_on [OF sel res, of reports] tick_moves_on [OF sel res, of "[]"]
    show "tick e now (report # reports) =
              (report # fst (tick e now reports), fst (snd (tick e now reports)),
               snd (snd (tick e now reports)))
            \<and> fst (tick e now [report]) = [report]"
      by simp
  qed
  show ?thesis
    by (intro conjI 1 2 3 4 5)
qed

lemma latest_fire_monday:
  "latest_fire c monday_0805 = Some monday_0800"
  "latest_fire c monday_0900 = Some monday_0800"
  by (simp_all add: latest_fire_def weekly_next_after_def next_monday_0800_def
      first_monday_0800_def msPerWeek_def msPerDay_def monday_0800_def monday_0805_def
      monday_0900_def)

lemma upcoming_fire_monday:
  "upcoming_fire c monday_0805 = Some (monday_0800 + msPerWeek)"
  by (simp add: upcoming_fire_def weekly_next_after_def next_monday_0800_def
      first_monday_0800_def msPerWeek_def msPerDay_def monday_0800_def monday_0805_def)

lemma shouldSend_latest:
  "shouldSend (sample_env latest_fire gen) monday_0805 c None = Some True"
  "shouldSend (sample_env latest_fire gen) monday_0900 c (Some monday_0805) = Some True"
  by (simp_all add: shouldSend_def sample_env_def latest_fire_monday)
     (simp_all add: monday_0800_def monday_0805_def monday_0900_def)

theorem failure_leaves_schedule_witness:
  "tick_body (sample_env latest_fire generation_fails) monday_0805 (weekly_report None) =
     (GenerationFailed, weekly_report None, [])
   \<and> fst (tick (sample_env latest_fire generation_fails) monday_0805 [weekly_report None]) =
       [weekly_report None]
   \<and> tick_body (sample_env latest_fire generation_ok) monday_0900 (weekly_report None) =
       (Sent, weekly_report (Some monday_0900), [weekly_mail])"
proof -
  let ?e1 = "sample_env latest_fire generation_fails"
  let ?e2 = "sample_env latest_fire generation_ok"
  let ?s = "\<lparr>cron = Some ''0 8 * * 1'', lastSent = None\<rparr>"
  let ?m = "report_mail (weekly_report None) ''admin@example.com'' ''[]''"
  have s: "schedule (weekly_report None) = Some ?s"
    and c: "cron ?s = Some ''0 8 * * 1''"
    and ne: "''0 8 * * 1'' \<noteq> []"
    and act: "isActive (weekly_report None)"
    and em: "creator_email (weekly_report None) = Some ''admin@example.com''"
    by (simp_all add: weekly_report_def)
  have d1: "shouldSend ?e1 monday_0805 ''0 8 * * 1'' (lastSent ?s) = Some True"
    by (simp add: shouldSend_latest)
  have d2: "shouldSend ?e2 monday_0900 ''0 8 * * 1'' (lastSent ?s) = Some True"
    by (simp add: shouldSend_def sample_env_def latest_fire_monday)
       (simp add: monday_0800_def monday_0900_def)
  have g1: "generateCustomReport ?e1 (report_id (weekly_report None)) monday_0805 =
              Inl ''Report not found''"
    by (simp add: sample_env_def generation_fails_def)
  have g2: "generateCustomReport ?e2 (report_id (weekly_report None)) monday_0900 = Inr ''[]''"
    and sm: "sendMail ?e2 ?m monday_0900"
    and up: "update_report ?e2 (report_id (weekly_report None)) monday_0900"
    by (simp_all add: sample_env_def generation_ok_def)
  note t1 = failure_leaves_schedule [OF s c ne d1, of "''Report not found''" "''[]''"
      "''admin@example.com''" "[]"]
  note t2 = failure_leaves_schedule [OF s c ne d2, of "''Report not found''" "''[]''"
      "''admin@example.com''" "[]"]
  from t1 g1 have b1: "tick_body ?e1 monday_0805 (weekly_report None) =
      (GenerationFailed, weekly_report None, [])"
    by blast
  from t1 b1 act have st: "fst (tick ?e1 monday_0805 [weekly_report None]) = [weekly_report None]"
    by blast
  from t2 g2 em sm up have b2: "tick_body ?e2 monday_0900 (weekly_report None) =
      (Sent, (weekly_report None)\<lparr>schedule := Some (?s\<lparr>lastSent := Some monday_0900\<rparr>)\<rparr>, [?m])"
    by blast
  have r: "(weekly_report None)\<lparr>schedule := Some (?s\<lparr>lastSent := Some monday_0900\<rparr>)\<rparr> =
             weekly_report (Some monday_0900)"
    by (simp add: weekly_report_def)
  from b1 st b2 show ?thesis
    by (simp only: r weekly_mail_def simp_thms)
qed

section \<open>The due test of the tick\<close>

lemma shouldSend_ignores_past_lastSent:
  assumes "l < now"
  shows "shouldSend e now c (Some l) = shouldSend e now c None"
  using assms by (simp add: shouldSend_def split: option.splits)

lemma tick_body_upcoming:
  "tick_body (sample_env upcoming_fire generation_ok) monday_0805 (weekly_report None) =
     (NotDue, weekly_report None, [])"
proof -
  have "shouldSend (sample_env upcoming_fire generation_ok) monday_0805 ''0 8 * * 1'' None =
          Some False"
    by (simp add: shouldSend_def sample_env_def upcoming_fire_monday)
       (simp add: monday_0800_def monday_0805_def msPerWeek_def msPerDay_def)
  then show ?thesis
    by (simp add: tick_body_def Let_def weekly_report_def)
qed

lemma tick_body_latest:
  "tick_body (sample_env latest_fire generation_ok) monday_0805 (weekly_report None) =
     (Sent, weekly_report (Some monday_0805), [weekly_mail])"
  "tick_body (sample_env latest_fire generation_ok) monday_0900
     (weekly_report (Some monday_0805)) =
     (Sent, weekly_report (Some monday_0900), [weekly_mail])"
proof -
  have m: "report_mail (weekly_report sent) ''admin@example.com'' ''[]'' = weekly_mail" for sent
    by (simp add: weekly_mail_def report_mail_def formatReportData_def weekly_report_def)
  have env:
    "generateCustomReport (sample_env latest_fire generation_ok) i t = Inr ''[]''"
    "sendMail (sample_env latest_fire generation_ok) ml t"
    "update_report (sample_env latest_fire generation_ok) i t" for i t ml
    by (simp_all add: sample_env_def generation_ok_def)
  have r: "schedule (weekly_report sent) = Some \<lparr>cron = Some ''0 8 * * 1'', lastSent = sent\<rparr>"
    "report_id (weekly_report sent) = ''RPT-20240601-00001''"
    "creator_email (weekly_report sent) = Some ''admin@example.com''"
    "(weekly_report sent)\<lparr>schedule := Some \<lparr>cron = Some ''0 8 * * 1'', lastSent = Some t\<rparr>\<rparr> =
       weekly_report (Some t)" for sent t
    by (simp_all add: weekly_report_def)
  show "tick_body (sample_env latest_fire generation_ok) monday_0805 (weekly_report None) =
     (Sent, weekly_report (Some monday_0805), [weekly_mail])"
    by (simp add: tick_body_def Let_def r shouldSend_latest env m)
  show "tick_body (sample_env latest_fire generation_ok) monday_0900
     (weekly_report (Some monday_0805)) =
     (Sent, weekly_report (Some monday_0900), [weekly_mail])"
    by (simp add: tick_body_def Let_def r shouldSend_latest env m)
qed

lemma due_rule_monday:
  "due_rule weekly_next_after monday_0805 (weekly_report None)"
  "\<not> due_rule weekly_next_after monday_0805 (weekly_report (Some monday_0804))"
  "\<not> due_rule weekly_next_after monday_0900 (weekly_report (Some monday_0805))"
  by (simp_all add: due_rule_def weekly_report_def Date_of_def weekly_next_after_def
      next_monday_0800_def first_monday_0800_def msPerWeek_def msPerDay_def
      monday_0804_def monday_0805_def monday_0900_def)

text \<open>
  C1. The rule from Idle to Due, at the tick of Monday 08:05 for the weekly report
  \<open>0 8 * * 1\<close>. By the rule the report never sent is due, and the report last sent at
  08:04 is not. The tick tests something else: whether the instant the cron library
  reports is at most \<open>now\<close> and \<open>lastSent\<close> is before \<open>now\<close>. Whatever the library
  answers, that test decides the same for both reports, so it is not the rule. With a
  library that reports the next fire instant after the tick, the report never sent is
  not due at 08:05; with a library that reports the last fire instant up to the tick,
  the report sent at 08:05 is sent again at 09:00, when the rule says it is not due.
\<close>

theorem due_rule_not_implemented:
  "due_rule weekly_next_after monday_0805 (weekly_report None)
   \<and> \<not> due_rule weekly_next_after monday_0805 (weekly_report (Some monday_0804))
   \<and> (\<forall>e. shouldSend e monday_0805 ''0 8 * * 1'' (Some monday_0804) =
            shouldSend e monday_0805 ''0 8 * * 1'' None)
   \<and> tick_body (sample_env upcoming_fire generation_ok) monday_0805 (weekly_report None) =
       (NotDue, weekly_report None, [])
   \<and> \<not> due_rule weekly_next_after monday_0900 (weekly_report (Some monday_0805))
   \<and> tick_body (sample_env latest_fire generation_ok) monday_0900
       (weekly_report (Some monday_0805)) =
       (Sent, weekly_report (Some monday_0900), [weekly_mail])"
proof -
  have "monday_0804 < monday_0805"
    by (simp add: monday_0804_def monday_0805_def)
  then have same: "\<forall>e. shouldSend e monday_0805 ''0 8 * * 1'' (Some monday_0804) =
            shouldSend e monday_0805 ''0 8 * * 1'' None"
    by (simp add: shouldSend_ignores_past_lastSent)
  show ?thesis
    by (intro conjI due_rule_monday same tick_body_upcoming tick_body_latest)
qed









end
